theory Spec2Isabelle
  imports Main
begin

section \<open>Entity model\<close>

text \<open>
  The router (\<^verbatim>\<open>src/router/router.go\<close>) works on the records of the package
  \<^verbatim>\<open>repository\<close>. Each Go struct is a record; a field keeps its Go name behind the
  name of its struct (\<^verbatim>\<open>app.Name\<close> is \<open>App_Name app\<close>). The fields are the ones the
  router reads or writes, together with the columns of the relational schema
  (\<^verbatim>\<open>src/unnamed/part_001\<close>) that the router only carries along.

  A Go \<^verbatim>\<open>string\<close> is a \<open>string\<close>, its zero value \<open>[]\<close>. A pointer that may
  be nil is an \<open>option\<close>. A slice is a list; the nil slice and the empty slice, which
  \<^verbatim>\<open>len\<close> and \<^verbatim>\<open>range\<close> cannot tell apart, are both \<open>[]\<close>. A
  \<^verbatim>\<open>time.Time\<close> is the instant it denotes, counted from the zero instant.
\<close>

type_synonym Time = int

definition IsZero :: "Time \<Rightarrow> bool" where
  "IsZero t = (t = 0)"

type_synonym AppStatus = string

type_synonym PayPlanType = string

text \<open>\<^verbatim>\<open>repository.AwaitingGracePeriod\<close> is a constant of the type \<^verbatim>\<open>AppStatus\<close>, a
  string type; the router only assigns it. Its value is declared outside the sources
  and is taken to be the name of the status.\<close>

definition AwaitingGracePeriod :: AppStatus where
  "AwaitingGracePeriod = ''AWAITING_GRACE_PERIOD''"

record PayPlan =
  PlanType :: PayPlanType
  DailyLimit :: int

record GatewayAAT =
  AAT_Address :: string
  AAT_ApplicationPublicKey :: string
  AAT_ApplicationSignature :: string
  AAT_ClientPublicKey :: string
  AAT_PrivateKey :: string
  AAT_Version :: string

record GatewaySettings =
  GS_SecretKey :: string
  GS_SecretKeyRequired :: bool
  GS_WhitelistBlockchains :: "string list"
  GS_WhitelistContracts :: string
  GS_WhitelistMethods :: string
  GS_WhitelistOrigins :: "string list"
  GS_WhitelistUserAgents :: "string list"

record NotificationSettings =
  NS_SignedUp :: bool
  NS_Quarter :: bool
  NS_Half :: bool
  NS_ThreeQuarters :: bool
  NS_Full :: bool

record AppLimits =
  Limits_AppID :: string
  Limits_AppName :: string
  Limits_AppUserID :: string
  Limits_PublicKey :: string
  Limits_PlanType :: PayPlanType
  Limits_DailyLimit :: int
  Limits_FirstDateSurpassed :: "Time option"
  Limits_NotificationSettings :: "NotificationSettings option"

record Application =
  App_ID :: string
  App_UserID :: string
  App_Name :: string
  App_ContactEmail :: string
  App_Description :: string
  App_Owner :: string
  App_URL :: string
  App_Status :: AppStatus
  App_PayPlanType :: PayPlanType
  App_Dummy :: bool
  App_FirstDateSurpassed :: Time
  App_GatewayAAT :: GatewayAAT
  App_GatewaySettings :: GatewaySettings
  App_Limits :: AppLimits
  App_NotificationSettings :: NotificationSettings
  App_CreatedAt :: Time
  App_UpdatedAt :: Time

record StickyOptions =
  SO_Duration :: string
  SO_StickyMax :: int
  SO_Stickiness :: bool
  SO_StickyOrigins :: "string list"

text \<open>
  \<^verbatim>\<open>LoadBalancer.Applications\<close> is a slice of pointers to applications. An element is
  the application the pointer leads to, or \<open>None\<close> for the nil pointer that
  \<^verbatim>\<open>Cache.GetApplication\<close> returns for an identifier it does not hold.
\<close>

record LoadBalancer =
  LB_ID :: string
  LB_Name :: string
  LB_UserID :: string
  LB_ApplicationIDs :: "string list"
  LB_RequestTimeout :: int
  LB_Gigastake :: bool
  LB_GigastakeRedirect :: bool
  LB_StickyOptions :: StickyOptions
  LB_Applications :: "Application option list"
  LB_CreatedAt :: Time
  LB_UpdatedAt :: Time

record Blockchain =
  Chain_ID :: string
  Chain_Active :: bool
  Chain_Altruist :: string
  Chain_Blockchain :: string
  Chain_Description :: string
  Chain_Network :: string
  Chain_Path :: string
  Chain_Ticker :: string

subsection \<open>Partial-update requests\<close>

record UpdateApplication =
  UA_Name :: string
  UA_Status :: AppStatus
  UA_PayPlanType :: PayPlanType
  UA_FirstDateSurpassed :: Time
  UA_GatewaySettings :: "GatewaySettings option"
  UA_NotificationSettings :: "NotificationSettings option"
  UA_Remove :: bool

record UpdateLoadBalancer =
  ULB_Name :: string
  ULB_StickyOptions :: "StickyOptions option"
  ULB_Remove :: bool

record UpdateFirstDateSurpassed =
  UFDS_ApplicationIDs :: "string list"
  UFDS_FirstDateSurpassed :: Time

section \<open>The cache\<close>

text \<open>
  Modelled from the spec: the state of \<^verbatim>\<open>cache.Cache\<close>. The package
  \<^verbatim>\<open>cache\<close> is not among the sources; the router only calls it. The state is the
  set of indices the specification lists: the primary indices by identifier and the two
  secondary indices by owning user, which hold identifiers that are resolved through the
  primary index.

  \<^verbatim>\<open>GetApplication\<close> and \<^verbatim>\<open>GetLoadBalancer\<close> return a pointer into the cache,
  and the router writes through it. The object a pointer leads to is the entry of the
  primary index under the identifier that was looked up, so a write through the pointer
  is an update of that entry (\<open>storeApplication\<close>, \<open>storeLoadBalancer\<close> below).
\<close>

record Cache =
  applicationsMap :: "string \<rightharpoonup> Application"
  applicationsMapByUserID :: "string \<Rightarrow> string list"
  loadBalancersMap :: "string \<rightharpoonup> LoadBalancer"
  loadBalancersMapByUserID :: "string \<Rightarrow> string list"
  blockchainsMap :: "string \<rightharpoonup> Blockchain"
  payPlansMap :: "PayPlanType \<rightharpoonup> PayPlan"

text \<open>Modelled from the spec: \<^verbatim>\<open>Cache.GetApplication\<close>, the lookup in the primary
  index of applications; \<open>None\<close> is the nil pointer for an unknown identifier.\<close>

definition Cache_GetApplication :: "Cache \<Rightarrow> string \<Rightarrow> Application option" where
  "Cache_GetApplication c appID = applicationsMap c appID"

text \<open>Modelled from the spec: \<^verbatim>\<open>Cache.GetLoadBalancer\<close>, the lookup in the primary
  index of load balancers.\<close>

definition Cache_GetLoadBalancer :: "Cache \<Rightarrow> string \<Rightarrow> LoadBalancer option" where
  "Cache_GetLoadBalancer c lbID = loadBalancersMap c lbID"

text \<open>Modelled from the spec: \<^verbatim>\<open>Cache.GetPayPlan\<close>, the lookup in the pay-plan
  index by plan type.\<close>

definition Cache_GetPayPlan :: "Cache \<Rightarrow> PayPlanType \<Rightarrow> PayPlan option" where
  "Cache_GetPayPlan c planType = payPlansMap c planType"

text \<open>Modelled from the spec: \<^verbatim>\<open>Cache.GetApplicationsByUserID\<close>, the sequence
  resolved through the secondary index; it is empty for a user who owns nothing.\<close>

definition Cache_GetApplicationsByUserID :: "Cache \<Rightarrow> string \<Rightarrow> Application list" where
  "Cache_GetApplicationsByUserID c userID =
     List.map_filter (applicationsMap c) (applicationsMapByUserID c userID)"

text \<open>Modelled from the spec: \<^verbatim>\<open>Cache.GetLoadBalancersByUserID\<close>, as for
  applications.\<close>

definition Cache_GetLoadBalancersByUserID :: "Cache \<Rightarrow> string \<Rightarrow> LoadBalancer list" where
  "Cache_GetLoadBalancersByUserID c userID =
     List.map_filter (loadBalancersMap c) (loadBalancersMapByUserID c userID)"

definition storeApplication :: "Cache \<Rightarrow> string \<Rightarrow> Application \<Rightarrow> Cache" where
  "storeApplication c appID app = c\<lparr>applicationsMap := (applicationsMap c)(appID \<mapsto> app)\<rparr>"

definition storeLoadBalancer :: "Cache \<Rightarrow> string \<Rightarrow> LoadBalancer \<Rightarrow> Cache" where
  "storeLoadBalancer c lbID lb = c\<lparr>loadBalancersMap := (loadBalancersMap c)(lbID \<mapsto> lb)\<rparr>"

section \<open>The writer, the router and its responses\<close>

text \<open>
  \<^verbatim>\<open>Writer\<close> is an interface; the router is given an implementation. A method that
  returns \<^verbatim>\<open>error\<close> gives \<open>None\<close> for nil and \<open>Some msg\<close> for an error with
  the message \<open>msg\<close>; a method that returns a record and an error gives \<open>Inl msg\<close>
  or \<open>Inr record\<close>. Every handler calls the writer at most once, so what the store
  does between two requests is a different \<open>Writer\<close> value.
\<close>

record Writer =
  Writer_WriteLoadBalancer :: "LoadBalancer \<Rightarrow> string + LoadBalancer"
  Writer_UpdateLoadBalancer :: "string \<Rightarrow> UpdateLoadBalancer \<Rightarrow> string option"
  Writer_RemoveLoadBalancer :: "string \<Rightarrow> string option"
  Writer_WriteApplication :: "Application \<Rightarrow> string + Application"
  Writer_UpdateApplication :: "string \<Rightarrow> UpdateApplication \<Rightarrow> string option"
  Writer_UpdateFirstDateSurpassed :: "UpdateFirstDateSurpassed \<Rightarrow> string option"
  Writer_RemoveApplication :: "string \<Rightarrow> string option"

record Router =
  Cache :: Cache
  Writer :: Writer

text \<open>The calls a handler made on the writer, in order.\<close>

datatype StoreCall =
  Call_WriteLoadBalancer LoadBalancer
  | Call_UpdateLoadBalancer string UpdateLoadBalancer
  | Call_RemoveLoadBalancer string
  | Call_WriteApplication Application
  | Call_UpdateApplication string UpdateApplication
  | Call_UpdateFirstDateSurpassed UpdateFirstDateSurpassed
  | Call_RemoveApplication string

datatype Payload =
  JSON_Application Application
  | JSON_Applications "Application list"
  | JSON_LoadBalancer LoadBalancer
  | JSON_LoadBalancers "LoadBalancer list"
  | JSON_PayPlan PayPlan

text \<open>
  A handler answers with \<^verbatim>\<open>jsonresponse.RespondWithJSON\<close> or
  \<^verbatim>\<open>jsonresponse.RespondWithError\<close>, or it panics: dereferencing a nil pointer is a
  run-time panic in Go, and the handler writes no response.
\<close>

datatype Response =
  RespondWithJSON nat Payload
  | RespondWithError nat string
  | Panic

abbreviation StatusOK :: nat where "StatusOK \<equiv> 200"
abbreviation StatusBadRequest :: nat where "StatusBadRequest \<equiv> 400"
abbreviation StatusNotFound :: nat where "StatusNotFound \<equiv> 404"
abbreviation StatusInternalServerError :: nat where "StatusInternalServerError \<equiv> 500"


definition errBalancerNotFound :: string where
  "errBalancerNotFound = ''load balancer not found''"

definition errApplicationNotFound :: string where
  "errApplicationNotFound = ''applications not found''"

text \<open>What a request leaves behind: the response, the cache and the calls on the
  writer.\<close>

record Outcome =
  Response :: Response
  CacheAfter :: Cache
  StoreCalls :: "StoreCall list"

section \<open>The handlers\<close>

text \<open>
  A handler is a function of the router, the path variable and the decoded body, and
  returns the \<open>Outcome\<close>. The body is what \<^verbatim>\<open>json.Decoder.Decode\<close> made of it:
  \<open>Inl msg\<close> when decoding failed, \<open>Inr value\<close> otherwise. Logging
  (\<^verbatim>\<open>rt.logError\<close>) changes neither the response nor the cache and is left out.
\<close>

definition respond :: "Response \<Rightarrow> Cache \<Rightarrow> StoreCall list \<Rightarrow> Outcome" where
  "respond r c calls = \<lparr>Response = r, CacheAfter = c, StoreCalls = calls\<rparr>"

text \<open>The composite literal
  \<^verbatim>\<open>repository.AppLimits{PlanType: newPlan.PlanType, DailyLimit: newPlan.DailyLimit}\<close>
  of \<^verbatim>\<open>CreateApplication\<close> and \<^verbatim>\<open>UpdateApplication\<close>: every other field has its
  zero value.\<close>

definition planLimits :: "PayPlan \<Rightarrow> AppLimits" where
  "planLimits newPlan =
     \<lparr>Limits_AppID = [], Limits_AppName = [], Limits_AppUserID = [], Limits_PublicKey = [],
      Limits_PlanType = PlanType newPlan, Limits_DailyLimit = DailyLimit newPlan,
      Limits_FirstDateSurpassed = None, Limits_NotificationSettings = None\<rparr>"

definition GetApplication :: "Router \<Rightarrow> string \<Rightarrow> Outcome" where
  "GetApplication rt appID =
     (case Cache_GetApplication (Cache rt) appID of
        None \<Rightarrow> respond (RespondWithError StatusNotFound errApplicationNotFound) (Cache rt) []
      | Some app \<Rightarrow> respond (RespondWithJSON StatusOK (JSON_Application app)) (Cache rt) [])"

definition GetLoadBalancer :: "Router \<Rightarrow> string \<Rightarrow> Outcome" where
  "GetLoadBalancer rt lbID =
     (case Cache_GetLoadBalancer (Cache rt) lbID of
        None \<Rightarrow> respond (RespondWithError StatusNotFound errBalancerNotFound) (Cache rt) []
      | Some lb \<Rightarrow> respond (RespondWithJSON StatusOK (JSON_LoadBalancer lb)) (Cache rt) [])"

text \<open>\<^verbatim>\<open>CreateApplication\<close>: \<^verbatim>\<open>newPlan.PlanType\<close> dereferences the pointer that
  \<^verbatim>\<open>GetPayPlan\<close> returned, which panics when the plan is unknown. The handler does
  not touch the cache.\<close>

definition CreateApplication :: "Router \<Rightarrow> string + Application \<Rightarrow> Outcome" where
  "CreateApplication rt body =
     (case body of
        Inl err \<Rightarrow> respond (RespondWithError StatusBadRequest err) (Cache rt) []
      | Inr app \<Rightarrow>
          (case Writer_WriteApplication (Writer rt) app of
             Inl err \<Rightarrow>
               respond (RespondWithError StatusInternalServerError err) (Cache rt)
                 [Call_WriteApplication app]
           | Inr fullApp \<Rightarrow>
               if App_PayPlanType fullApp \<noteq> [] then
                 (case Cache_GetPayPlan (Cache rt) (App_PayPlanType fullApp) of
                    None \<Rightarrow> respond Panic (Cache rt) [Call_WriteApplication app]
                  | Some newPlan \<Rightarrow>
                      respond
                        (RespondWithJSON StatusOK
                           (JSON_Application
                              (fullApp\<lparr>App_Limits := planLimits newPlan, App_PayPlanType := []\<rparr>)))
                        (Cache rt) [Call_WriteApplication app])
               else
                 respond (RespondWithJSON StatusOK (JSON_Application fullApp)) (Cache rt)
                   [Call_WriteApplication app]))"

text \<open>
  \<^verbatim>\<open>UpdateApplication\<close>. \<open>app\<close> is the cached object, and each assignment of the
  source is a write into the cache. \<open>app2\<close> is the object after the assignments of
  the name and the status; when the plan is unknown the panic happens then, with these
  two assignments already made.
\<close>

definition UpdateApplication :: "Router \<Rightarrow> string \<Rightarrow> string + UpdateApplication \<Rightarrow> Outcome" where
  "UpdateApplication rt appID body =
     (case Cache_GetApplication (Cache rt) appID of
        None \<Rightarrow> respond (RespondWithError StatusNotFound errApplicationNotFound) (Cache rt) []
      | Some app \<Rightarrow>
          (case body of
             Inl err \<Rightarrow> respond (RespondWithError StatusBadRequest err) (Cache rt) []
           | Inr updateInput \<Rightarrow>
               if UA_Remove updateInput then
                 (case Writer_RemoveApplication (Writer rt) appID of
                    Some err \<Rightarrow>
                      respond (RespondWithError StatusInternalServerError err) (Cache rt)
                        [Call_RemoveApplication appID]
                  | None \<Rightarrow>
                      (let app' = app\<lparr>App_Status := AwaitingGracePeriod\<rparr>
                       in respond (RespondWithJSON StatusOK (JSON_Application app'))
                            (storeApplication (Cache rt) appID app')
                            [Call_RemoveApplication appID]))
               else
                 (case Writer_UpdateApplication (Writer rt) appID updateInput of
                    Some err \<Rightarrow>
                      respond (RespondWithError StatusInternalServerError err) (Cache rt)
                        [Call_UpdateApplication appID updateInput]
                  | None \<Rightarrow>
                      (let app1 = (if UA_Name updateInput \<noteq> []
                                   then app\<lparr>App_Name := UA_Name updateInput\<rparr> else app);
                           app2 = (if UA_Status updateInput \<noteq> []
                                   then app1\<lparr>App_Status := UA_Status updateInput\<rparr> else app1);
                           app3 = (if UA_PayPlanType updateInput \<noteq> [] then
                                     (case Cache_GetPayPlan (Cache rt) (UA_PayPlanType updateInput) of
                                        None \<Rightarrow> None
                                      | Some newPlan \<Rightarrow>
                                          Some (app2\<lparr>App_Limits := planLimits newPlan\<rparr>))
                                   else Some app2)
                       in case app3 of
                            None \<Rightarrow>
                              respond Panic (storeApplication (Cache rt) appID app2)
                                [Call_UpdateApplication appID updateInput]
                          | Some app3 \<Rightarrow>
                              (let app4 = (if \<not> IsZero (UA_FirstDateSurpassed updateInput)
                                           then app3\<lparr>App_FirstDateSurpassed :=
                                                        UA_FirstDateSurpassed updateInput\<rparr>
                                           else app3);
                                   app5 = (case UA_GatewaySettings updateInput of
                                             None \<Rightarrow> app4
                                           | Some gs \<Rightarrow> app4\<lparr>App_GatewaySettings := gs\<rparr>);
                                   app6 = (case UA_NotificationSettings updateInput of
                                             None \<Rightarrow> app5
                                           | Some ns \<Rightarrow> app5\<lparr>App_NotificationSettings := ns\<rparr>)
                               in respond (RespondWithJSON StatusOK (JSON_Application app6))
                                    (storeApplication (Cache rt) appID app6)
                                    [Call_UpdateApplication appID updateInput])))))"

text \<open>
  \<^verbatim>\<open>UpdateFirstDateSurpassed\<close>. The first loop collects the pointers of the listed
  applications and stops at the first identifier the cache does not hold; a pointer is
  the identifier it was looked up under. The second loop writes through every collected
  pointer. The response is read through the pointers after the writes.
\<close>

fun lookupApplications :: "Cache \<Rightarrow> string list \<Rightarrow> string list \<Rightarrow> string + string list" where
  "lookupApplications c [] appsToUpdate = Inr appsToUpdate"
| "lookupApplications c (appID # appIDs) appsToUpdate =
     (case Cache_GetApplication c appID of
        None \<Rightarrow> Inl appID
      | Some app \<Rightarrow> lookupApplications c appIDs (appsToUpdate @ [appID]))"

fun setFirstDateSurpassed :: "Time \<Rightarrow> string list \<Rightarrow> Cache \<Rightarrow> Cache" where
  "setFirstDateSurpassed t [] c = c"
| "setFirstDateSurpassed t (p # ps) c =
     setFirstDateSurpassed t ps
       (case Cache_GetApplication c p of
          None \<Rightarrow> c
        | Some app \<Rightarrow> storeApplication c p (app\<lparr>App_FirstDateSurpassed := t\<rparr>))"

definition UpdateFirstDateSurpassed :: "Router \<Rightarrow> string + UpdateFirstDateSurpassed \<Rightarrow> Outcome" where
  "UpdateFirstDateSurpassed rt body =
     (case body of
        Inl err \<Rightarrow> respond (RespondWithError StatusBadRequest err) (Cache rt) []
      | Inr updateInput \<Rightarrow>
          if length (UFDS_ApplicationIDs updateInput) = 0 then
            respond (RespondWithError StatusBadRequest ''no application IDs on input'')
              (Cache rt) []
          else
            (case lookupApplications (Cache rt) (UFDS_ApplicationIDs updateInput) [] of
               Inl appID \<Rightarrow>
                 respond (RespondWithError StatusNotFound (appID @ '' not found'')) (Cache rt) []
             | Inr appsToUpdate \<Rightarrow>
                 (case Writer_UpdateFirstDateSurpassed (Writer rt) updateInput of
                    Some err \<Rightarrow>
                      respond (RespondWithError StatusInternalServerError err) (Cache rt)
                        [Call_UpdateFirstDateSurpassed updateInput]
                  | None \<Rightarrow>
                      (let c' = setFirstDateSurpassed (UFDS_FirstDateSurpassed updateInput)
                                  appsToUpdate (Cache rt)
                       in respond
                            (RespondWithJSON StatusOK
                               (JSON_Applications
                                  (List.map_filter (Cache_GetApplication c') appsToUpdate)))
                            c' [Call_UpdateFirstDateSurpassed updateInput]))))"

definition GetApplicationByUserID :: "Router \<Rightarrow> string \<Rightarrow> Outcome" where
  "GetApplicationByUserID rt userID =
     (let apps = Cache_GetApplicationsByUserID (Cache rt) userID
      in if length apps = 0 then
           respond (RespondWithError StatusNotFound errApplicationNotFound) (Cache rt) []
         else respond (RespondWithJSON StatusOK (JSON_Applications apps)) (Cache rt) [])"

definition GetLoadBalancerByUserID :: "Router \<Rightarrow> string \<Rightarrow> Outcome" where
  "GetLoadBalancerByUserID rt userID =
     (let lbs = Cache_GetLoadBalancersByUserID (Cache rt) userID
      in if length lbs = 0 then
           respond (RespondWithError StatusNotFound errBalancerNotFound) (Cache rt) []
         else respond (RespondWithJSON StatusOK (JSON_LoadBalancers lbs)) (Cache rt) [])"

text \<open>\<^verbatim>\<open>CreateLoadBalancer\<close>: the loop appends, for every identifier in turn, the pointer
  that \<^verbatim>\<open>GetApplication\<close> returns, nil included, to the list the writer returned.\<close>

fun appendApplications :: "Cache \<Rightarrow> string list \<Rightarrow> Application option list \<Rightarrow> Application option list" where
  "appendApplications c [] applications = applications"
| "appendApplications c (appID # appIDs) applications =
     appendApplications c appIDs (applications @ [Cache_GetApplication c appID])"

definition CreateLoadBalancer :: "Router \<Rightarrow> string + LoadBalancer \<Rightarrow> Outcome" where
  "CreateLoadBalancer rt body =
     (case body of
        Inl err \<Rightarrow> respond (RespondWithError StatusBadRequest err) (Cache rt) []
      | Inr lb \<Rightarrow>
          (case Writer_WriteLoadBalancer (Writer rt) lb of
             Inl err \<Rightarrow>
               respond (RespondWithError StatusInternalServerError err) (Cache rt)
                 [Call_WriteLoadBalancer lb]
           | Inr fullLB \<Rightarrow>
               respond
                 (RespondWithJSON StatusOK
                    (JSON_LoadBalancer
                       (fullLB\<lparr>LB_Applications :=
                                 appendApplications (Cache rt) (LB_ApplicationIDs fullLB)
                                   (LB_Applications fullLB),
                               LB_ApplicationIDs := []\<rparr>)))
                 (Cache rt) [Call_WriteLoadBalancer lb]))"

definition UpdateLoadBalancer :: "Router \<Rightarrow> string \<Rightarrow> string + UpdateLoadBalancer \<Rightarrow> Outcome" where
  "UpdateLoadBalancer rt lbID body =
     (case Cache_GetLoadBalancer (Cache rt) lbID of
        None \<Rightarrow> respond (RespondWithError StatusNotFound errBalancerNotFound) (Cache rt) []
      | Some lb \<Rightarrow>
          (case body of
             Inl err \<Rightarrow> respond (RespondWithError StatusBadRequest err) (Cache rt) []
           | Inr updateInput \<Rightarrow>
               if ULB_Remove updateInput then
                 (case Writer_RemoveLoadBalancer (Writer rt) lbID of
                    Some err \<Rightarrow>
                      respond (RespondWithError StatusInternalServerError err) (Cache rt)
                        [Call_RemoveLoadBalancer lbID]
                  | None \<Rightarrow>
                      (let lb' = lb\<lparr>LB_UserID := []\<rparr>
                       in respond (RespondWithJSON StatusOK (JSON_LoadBalancer lb'))
                            (storeLoadBalancer (Cache rt) lbID lb')
                            [Call_RemoveLoadBalancer lbID]))
               else
                 (case Writer_UpdateLoadBalancer (Writer rt) lbID updateInput of
                    Some err \<Rightarrow>
                      respond (RespondWithError StatusInternalServerError err) (Cache rt)
                        [Call_UpdateLoadBalancer lbID updateInput]
                  | None \<Rightarrow>
                      (let lb1 = (if ULB_Name updateInput \<noteq> []
                                  then lb\<lparr>LB_Name := ULB_Name updateInput\<rparr> else lb);
                           lb2 = (case ULB_StickyOptions updateInput of
                                    None \<Rightarrow> lb1
                                  | Some so \<Rightarrow> lb1\<lparr>LB_StickyOptions := so\<rparr>)
                       in respond (RespondWithJSON StatusOK (JSON_LoadBalancer lb2))
                            (storeLoadBalancer (Cache rt) lbID lb2)
                            [Call_UpdateLoadBalancer lbID updateInput]))))"




section \<open>Letter case\<close>




section \<open>Requests that change nothing\<close>

text \<open>The update requests whose every field has its zero value.\<close>

definition noopUpdateApplication :: UpdateApplication where
  "noopUpdateApplication =
     \<lparr>UA_Name = [], UA_Status = [], UA_PayPlanType = [], UA_FirstDateSurpassed = 0,
      UA_GatewaySettings = None, UA_NotificationSettings = None, UA_Remove = False\<rparr>"

definition noopUpdateLoadBalancer :: UpdateLoadBalancer where
  "noopUpdateLoadBalancer = \<lparr>ULB_Name = [], ULB_StickyOptions = None, ULB_Remove = False\<rparr>"

section \<open>A small mirror\<close>

text \<open>
  The pay plans are rows the schema inserts. The mirror holds one application,
  \<^verbatim>\<open>app1\<close> of \<^verbatim>\<open>user1\<close>, and one load balancer, \<^verbatim>\<open>lb1\<close>, with
  \<^verbatim>\<open>app1\<close> as its member.
\<close>

definition freetier :: PayPlan where
  "freetier = \<lparr>PlanType = ''FREETIER_V0'', DailyLimit = 250000\<rparr>"

definition testPlan10K :: PayPlan where
  "testPlan10K = \<lparr>PlanType = ''TEST_PLAN_10K'', DailyLimit = 10000\<rparr>"

definition demoGatewaySettings :: GatewaySettings where
  "demoGatewaySettings =
     \<lparr>GS_SecretKey = ''s3cret'', GS_SecretKeyRequired = True, GS_WhitelistBlockchains = [],
      GS_WhitelistContracts = [], GS_WhitelistMethods = [], GS_WhitelistOrigins = [''example.org''],
      GS_WhitelistUserAgents = []\<rparr>"

definition demoNotificationSettings :: NotificationSettings where
  "demoNotificationSettings =
     \<lparr>NS_SignedUp = True, NS_Quarter = False, NS_Half = True, NS_ThreeQuarters = False,
      NS_Full = True\<rparr>"

definition demoStickyOptions :: StickyOptions where
  "demoStickyOptions =
     \<lparr>SO_Duration = ''60'', SO_StickyMax = 300, SO_Stickiness = True, SO_StickyOrigins = []\<rparr>"

definition demoApp :: Application where
  "demoApp =
     \<lparr>App_ID = ''app1'', App_UserID = ''user1'', App_Name = ''first'', App_ContactEmail = [],
      App_Description = [], App_Owner = [], App_URL = [], App_Status = ''IN_SERVICE'',
      App_PayPlanType = [], App_Dummy = False, App_FirstDateSurpassed = 0,
      App_GatewayAAT =
        \<lparr>AAT_Address = ''addr'', AAT_ApplicationPublicKey = ''pub'',
         AAT_ApplicationSignature = ''sig'', AAT_ClientPublicKey = ''cpub'',
         AAT_PrivateKey = ''priv'', AAT_Version = ''0.0.1''\<rparr>,
      App_GatewaySettings =
        \<lparr>GS_SecretKey = [], GS_SecretKeyRequired = False, GS_WhitelistBlockchains = [],
         GS_WhitelistContracts = [], GS_WhitelistMethods = [], GS_WhitelistOrigins = [],
         GS_WhitelistUserAgents = []\<rparr>,
      App_Limits = planLimits freetier,
      App_NotificationSettings =
        \<lparr>NS_SignedUp = False, NS_Quarter = False, NS_Half = False, NS_ThreeQuarters = False,
         NS_Full = False\<rparr>,
      App_CreatedAt = 1, App_UpdatedAt = 1\<rparr>"

definition demoLB :: LoadBalancer where
  "demoLB =
     \<lparr>LB_ID = ''lb1'', LB_Name = ''balancer'', LB_UserID = ''user1'',
      LB_ApplicationIDs = [''app1'', ''ghost'', ''app1''], LB_RequestTimeout = 2000,
      LB_Gigastake = False, LB_GigastakeRedirect = False,
      LB_StickyOptions =
        \<lparr>SO_Duration = [], SO_StickyMax = 0, SO_Stickiness = False, SO_StickyOrigins = []\<rparr>,
      LB_Applications = [], LB_CreatedAt = 1, LB_UpdatedAt = 1\<rparr>"

definition demoCache :: Cache where
  "demoCache =
     \<lparr>applicationsMap = [''app1'' \<mapsto> demoApp],
      applicationsMapByUserID = (\<lambda>u. if u = ''user1'' then [''app1''] else []),
      loadBalancersMap = [''lb1'' \<mapsto> demoLB],
      loadBalancersMapByUserID = (\<lambda>u. if u = ''user1'' then [''lb1''] else []),
      blockchainsMap = Map.empty,
      payPlansMap = [''FREETIER_V0'' \<mapsto> freetier, ''TEST_PLAN_10K'' \<mapsto> testPlan10K]\<rparr>"

text \<open>A mirror whose application still carries the plan type next to its limits.\<close>

definition planCache :: Cache where
  "planCache =
     demoCache\<lparr>applicationsMap := [''app1'' \<mapsto> demoApp\<lparr>App_PayPlanType := ''FREETIER_V0''\<rparr>]\<rparr>"

text \<open>A store that accepts every write and returns the record it was given, and a store
  that refuses every write.\<close>

definition okWriter :: Writer where
  "okWriter =
     \<lparr>Writer_WriteLoadBalancer = Inr, Writer_UpdateLoadBalancer = (\<lambda>lbID u. None),
      Writer_RemoveLoadBalancer = (\<lambda>lbID. None), Writer_WriteApplication = Inr,
      Writer_UpdateApplication = (\<lambda>appID u. None),
      Writer_UpdateFirstDateSurpassed = (\<lambda>u. None),
      Writer_RemoveApplication = (\<lambda>appID. None)\<rparr>"

definition failingWriter :: Writer where
  "failingWriter =
     \<lparr>Writer_WriteLoadBalancer = (\<lambda>lb. Inl ''store down''),
      Writer_UpdateLoadBalancer = (\<lambda>lbID u. Some ''store down''),
      Writer_RemoveLoadBalancer = (\<lambda>lbID. Some ''store down''),
      Writer_WriteApplication = (\<lambda>app. Inl ''store down''),
      Writer_UpdateApplication = (\<lambda>appID u. Some ''store down''),
      Writer_UpdateFirstDateSurpassed = (\<lambda>u. Some ''store down''),
      Writer_RemoveApplication = (\<lambda>appID. Some ''store down'')\<rparr>"

definition demoRouter :: Router where
  "demoRouter = \<lparr>Cache = demoCache, Writer = okWriter\<rparr>"

definition downRouter :: Router where
  "downRouter = \<lparr>Cache = demoCache, Writer = failingWriter\<rparr>"

definition planRouter :: Router where
  "planRouter = \<lparr>Cache = planCache, Writer = okWriter\<rparr>"

text \<open>Requests: a new name, a new plan and new gateway settings at once; a new plan
  only; a new name and a new date with a plan the mirror does not hold; a removal that
  also carries a name; and the like for load balancers.\<close>

definition renameAndPlan :: UpdateApplication where
  "renameAndPlan =
     \<lparr>UA_Name = ''renamed'', UA_Status = [], UA_PayPlanType = ''TEST_PLAN_10K'',
      UA_FirstDateSurpassed = 0, UA_GatewaySettings = Some demoGatewaySettings,
      UA_NotificationSettings = None, UA_Remove = False\<rparr>"

definition planOnly :: UpdateApplication where
  "planOnly = noopUpdateApplication\<lparr>UA_PayPlanType := ''TEST_PLAN_10K''\<rparr>"

definition unknownPlan :: UpdateApplication where
  "unknownPlan =
     \<lparr>UA_Name = ''renamed'', UA_Status = [], UA_PayPlanType = ''NO_SUCH_PLAN'',
      UA_FirstDateSurpassed = 7, UA_GatewaySettings = None,
      UA_NotificationSettings = None, UA_Remove = False\<rparr>"

definition removeApp :: UpdateApplication where
  "removeApp = noopUpdateApplication\<lparr>UA_Name := ''ignored'', UA_Remove := True\<rparr>"

definition stickyUpdate :: UpdateLoadBalancer where
  "stickyUpdate =
     \<lparr>ULB_Name = [], ULB_StickyOptions = Some demoStickyOptions, ULB_Remove = False\<rparr>"

definition removeLB :: UpdateLoadBalancer where
  "removeLB = \<lparr>ULB_Name = ''ignored'', ULB_StickyOptions = None, ULB_Remove = True\<rparr>"

definition surpassedToday :: UpdateFirstDateSurpassed where
  "surpassedToday = \<lparr>UFDS_ApplicationIDs = [''app1'', ''app1''], UFDS_FirstDateSurpassed = 42\<rparr>"

definition surpassedNobody :: UpdateFirstDateSurpassed where
  "surpassedNobody = \<lparr>UFDS_ApplicationIDs = [], UFDS_FirstDateSurpassed = 42\<rparr>"

definition surpassedGhost :: UpdateFirstDateSurpassed where
  "surpassedGhost = \<lparr>UFDS_ApplicationIDs = [''app1'', ''ghost''], UFDS_FirstDateSurpassed = 42\<rparr>"

definition newAppOnPlan :: Application where
  "newAppOnPlan = demoApp\<lparr>App_ID := ''app2'', App_PayPlanType := ''TEST_PLAN_10K''\<rparr>"

definition newAppUnknownPlan :: Application where
  "newAppUnknownPlan = demoApp\<lparr>App_ID := ''app3'', App_PayPlanType := ''NO_SUCH_PLAN''\<rparr>"

section \<open>Auxiliary facts\<close>

lemmas demo_defs = demoRouter_def downRouter_def planRouter_def demoCache_def planCache_def
  okWriter_def failingWriter_def Cache_GetApplication_def Cache_GetLoadBalancer_def
  Cache_GetPayPlan_def renameAndPlan_def planOnly_def unknownPlan_def removeApp_def
  stickyUpdate_def removeLB_def surpassedToday_def surpassedNobody_def surpassedGhost_def
  noopUpdateApplication_def noopUpdateLoadBalancer_def newAppOnPlan_def newAppUnknownPlan_def

text \<open>Writing back what an entry already holds changes nothing.\<close>

lemma storeApplication_same:
  "applicationsMap c appID = Some app \<Longrightarrow> storeApplication c appID app = c"
  by (simp add: storeApplication_def map_upd_triv)

lemma storeLoadBalancer_same:
  "loadBalancersMap c lbID = Some lb \<Longrightarrow> storeLoadBalancer c lbID lb = c"
  by (simp add: storeLoadBalancer_def map_upd_triv)

text \<open>The update of an application that the store accepted, when the request names no
  plan or a plan the cache holds: the handler runs to its end.\<close>

lemma UpdateApplication_ok:
  assumes "Cache_GetApplication (Cache rt) appID = Some app" "\<not> UA_Remove u"
    "Writer_UpdateApplication (Writer rt) appID u = None"
    "UA_PayPlanType u = [] \<or> Cache_GetPayPlan (Cache rt) (UA_PayPlanType u) = Some newPlan"
  shows "UpdateApplication rt appID (Inr u) =
        (let merged = app
           \<lparr>App_Name := (if UA_Name u = [] then App_Name app else UA_Name u),
            App_Status := (if UA_Status u = [] then App_Status app else UA_Status u),
            App_Limits := (if UA_PayPlanType u = [] then App_Limits app else planLimits newPlan),
            App_FirstDateSurpassed :=
              (if IsZero (UA_FirstDateSurpassed u) then App_FirstDateSurpassed app
               else UA_FirstDateSurpassed u),
            App_GatewaySettings :=
              (case UA_GatewaySettings u of None \<Rightarrow> App_GatewaySettings app | Some gs \<Rightarrow> gs),
            App_NotificationSettings :=
              (case UA_NotificationSettings u of
                 None \<Rightarrow> App_NotificationSettings app | Some ns \<Rightarrow> ns)\<rparr>
         in respond (RespondWithJSON StatusOK (JSON_Application merged))
              (storeApplication (Cache rt) appID merged) [Call_UpdateApplication appID u])"
  using assms
  by (cases "UA_GatewaySettings u"; cases "UA_NotificationSettings u";
      cases "UA_PayPlanType u = []")
     (simp_all add: UpdateApplication_def Let_def)

lemma UpdateLoadBalancer_ok:
  assumes "Cache_GetLoadBalancer (Cache rt) lbID = Some lb" "\<not> ULB_Remove v"
    "Writer_UpdateLoadBalancer (Writer rt) lbID v = None"
  shows "UpdateLoadBalancer rt lbID (Inr v) =
        (let merged = lb
           \<lparr>LB_Name := (if ULB_Name v = [] then LB_Name lb else ULB_Name v),
            LB_StickyOptions :=
              (case ULB_StickyOptions v of None \<Rightarrow> LB_StickyOptions lb | Some so \<Rightarrow> so)\<rparr>
         in respond (RespondWithJSON StatusOK (JSON_LoadBalancer merged))
              (storeLoadBalancer (Cache rt) lbID merged) [Call_UpdateLoadBalancer lbID v])"
  using assms by (cases "ULB_StickyOptions v") (simp_all add: UpdateLoadBalancer_def Let_def)

text \<open>The update that the store accepted and that names a plan the cache does not hold:
  the handler panics after it has written the name and the status.\<close>

lemma UpdateApplication_unknown_plan:
  assumes "Cache_GetApplication (Cache rt) appID = Some app" "\<not> UA_Remove u"
    "Writer_UpdateApplication (Writer rt) appID u = None"
    "UA_PayPlanType u \<noteq> []" "Cache_GetPayPlan (Cache rt) (UA_PayPlanType u) = None"
  shows "UpdateApplication rt appID (Inr u) =
     respond Panic
       (storeApplication (Cache rt) appID
          (app\<lparr>App_Name := (if UA_Name u = [] then App_Name app else UA_Name u),
               App_Status := (if UA_Status u = [] then App_Status app else UA_Status u)\<rparr>))
       [Call_UpdateApplication appID u]"
  using assms by (simp add: UpdateApplication_def Let_def)

text \<open>The no-op requests leave the cache as it was, whatever the store answers.\<close>

lemma noop_application:
  "CacheAfter (UpdateApplication rt appID (Inr noopUpdateApplication)) = Cache rt"
  by (simp add: UpdateApplication_def noopUpdateApplication_def respond_def IsZero_def
        storeApplication_same Cache_GetApplication_def split: option.splits)

lemma noop_load_balancer:
  "CacheAfter (UpdateLoadBalancer rt lbID (Inr noopUpdateLoadBalancer)) = Cache rt"
  by (simp add: UpdateLoadBalancer_def noopUpdateLoadBalancer_def respond_def
        storeLoadBalancer_same Cache_GetLoadBalancer_def split: option.splits)

text \<open>The loops in closed form.\<close>

lemma appendApplications_eq:
  "appendApplications c appIDs applications = applications @ map (Cache_GetApplication c) appIDs"
  by (induction appIDs arbitrary: applications) simp_all

lemma lookupApplications_found:
  "\<forall>i \<in> set appIDs. Cache_GetApplication c i \<noteq> None \<Longrightarrow>
   lookupApplications c appIDs acc = Inr (acc @ appIDs)"
  by (induction appIDs arbitrary: acc) auto

lemma lookupApplications_missing:
  "\<exists>i \<in> set appIDs. Cache_GetApplication c i = None \<Longrightarrow>
   \<exists>i \<in> set appIDs. Cache_GetApplication c i = None \<and> lookupApplications c appIDs acc = Inl i"
  by (induction appIDs arbitrary: acc) (auto split: option.splits)

lemma setFirstDateSurpassed_eq:
  "setFirstDateSurpassed t ps c =
     c\<lparr>applicationsMap := (\<lambda>i. if i \<in> set ps
            then map_option (\<lambda>a. a\<lparr>App_FirstDateSurpassed := t\<rparr>) (applicationsMap c i)
            else applicationsMap c i)\<rparr>"
proof (induction ps arbitrary: c)
  case Nil
  show ?case by simp
next
  case (Cons p ps)
  show ?case
    by (cases "applicationsMap c p")
       (auto simp: Cons.IH Cache_GetApplication_def storeApplication_def fun_eq_iff
             intro!: arg_cong2[where f="\<lambda>f c. applicationsMap_update f c"])
qed






section \<open>The partial update\<close>

text \<open>
  Claim C1, as amended. For an application the cache holds, a request with
  \<^verbatim>\<open>remove=false\<close> that the store accepts, and whose plan type is empty or names a pay
  plan of the cache, the handler answers 200 with the merged application and writes it
  into the cache: the name, the status, the date, the gateway settings and the
  notification settings are the incoming value when that is not the zero value of its
  type, and the old value otherwise, nested objects as a whole. A plan type that is not
  empty does not replace the plan-type field: it replaces the limits by the plan type
  and the daily limit of the named plan, every other field of the limits zero. Every
  other field of the application is as before. For a load balancer the same holds of
  the name and the stickiness options.
\<close>

theorem UpdateApplication_sentinel_merge:
  "(Cache_GetApplication (Cache rt) appID = Some app \<and> \<not> UA_Remove u
      \<and> Writer_UpdateApplication (Writer rt) appID u = None
      \<and> (UA_PayPlanType u = [] \<or> Cache_GetPayPlan (Cache rt) (UA_PayPlanType u) = Some newPlan)
    \<longrightarrow>
      UpdateApplication rt appID (Inr u) =
        (let merged = app
           \<lparr>App_Name := (if UA_Name u = [] then App_Name app else UA_Name u),
            App_Status := (if UA_Status u = [] then App_Status app else UA_Status u),
            App_Limits := (if UA_PayPlanType u = [] then App_Limits app else planLimits newPlan),
            App_FirstDateSurpassed :=
              (if IsZero (UA_FirstDateSurpassed u) then App_FirstDateSurpassed app
               else UA_FirstDateSurpassed u),
            App_GatewaySettings :=
              (case UA_GatewaySettings u of None \<Rightarrow> App_GatewaySettings app | Some gs \<Rightarrow> gs),
            App_NotificationSettings :=
              (case UA_NotificationSettings u of
                 None \<Rightarrow> App_NotificationSettings app | Some ns \<Rightarrow> ns)\<rparr>
         in respond (RespondWithJSON StatusOK (JSON_Application merged))
              (storeApplication (Cache rt) appID merged) [Call_UpdateApplication appID u]))
   \<and>
   (Cache_GetLoadBalancer (Cache rt) lbID = Some lb \<and> \<not> ULB_Remove v
      \<and> Writer_UpdateLoadBalancer (Writer rt) lbID v = None
    \<longrightarrow>
      UpdateLoadBalancer rt lbID (Inr v) =
        (let merged = lb
           \<lparr>LB_Name := (if ULB_Name v = [] then LB_Name lb else ULB_Name v),
            LB_StickyOptions :=
              (case ULB_StickyOptions v of None \<Rightarrow> LB_StickyOptions lb | Some so \<Rightarrow> so)\<rparr>
         in respond (RespondWithJSON StatusOK (JSON_LoadBalancer merged))
              (storeLoadBalancer (Cache rt) lbID merged) [Call_UpdateLoadBalancer lbID v]))"
  using UpdateApplication_ok [of rt appID app u newPlan] UpdateLoadBalancer_ok [of rt lbID lb v]
  by blast

text \<open>The small mirror, a request with a new name, a new plan and new gateway settings,
  and a request with new stickiness options.\<close>

theorem UpdateApplication_sentinel_merge_witness:
  "Cache_GetApplication (Cache demoRouter) ''app1'' = Some demoApp
   \<and> \<not> UA_Remove renameAndPlan
   \<and> Writer_UpdateApplication (Writer demoRouter) ''app1'' renameAndPlan = None
   \<and> Cache_GetPayPlan (Cache demoRouter) (UA_PayPlanType renameAndPlan) = Some testPlan10K
   \<and> UpdateApplication demoRouter ''app1'' (Inr renameAndPlan) =
       respond
         (RespondWithJSON StatusOK
            (JSON_Application
               (demoApp\<lparr>App_Name := ''renamed'', App_Limits := planLimits testPlan10K,
                        App_GatewaySettings := demoGatewaySettings\<rparr>)))
         (storeApplication demoCache ''app1''
            (demoApp\<lparr>App_Name := ''renamed'', App_Limits := planLimits testPlan10K,
                     App_GatewaySettings := demoGatewaySettings\<rparr>))
         [Call_UpdateApplication ''app1'' renameAndPlan]
   \<and> Cache_GetLoadBalancer (Cache demoRouter) ''lb1'' = Some demoLB
   \<and> \<not> ULB_Remove stickyUpdate
   \<and> Writer_UpdateLoadBalancer (Writer demoRouter) ''lb1'' stickyUpdate = None
   \<and> UpdateLoadBalancer demoRouter ''lb1'' (Inr stickyUpdate) =
       respond
         (RespondWithJSON StatusOK
            (JSON_LoadBalancer (demoLB\<lparr>LB_StickyOptions := demoStickyOptions\<rparr>)))
         (storeLoadBalancer demoCache ''lb1'' (demoLB\<lparr>LB_StickyOptions := demoStickyOptions\<rparr>))
         [Call_UpdateLoadBalancer ''lb1'' stickyUpdate]"
  using UpdateApplication_sentinel_merge
    [of demoRouter "''app1''" demoApp renameAndPlan testPlan10K "''lb1''" demoLB stickyUpdate]
  by (simp add: demo_defs demoApp_def IsZero_def Let_def)

text \<open>
  The claim as it was stated fails for the plan type. In the request \<open>planOnly\<close> every
  field but the plan type has its zero value, and the store accepts it. Afterwards the
  plan-type field of the cached application is still empty, not the incoming
  \<^verbatim>\<open>TEST_PLAN_10K\<close>, and the field that changed is the limits. And when the plan
  type names a plan the cache does not hold, as in \<open>unknownPlan\<close>, the date of the
  request, which is not zero, does not replace the date of the cached application.
\<close>

theorem UpdateApplication_plan_type_counterexample:
  "UA_PayPlanType planOnly = ''TEST_PLAN_10K''
   \<and> planOnly\<lparr>UA_PayPlanType := []\<rparr> = noopUpdateApplication
   \<and> Writer_UpdateApplication (Writer demoRouter) ''app1'' planOnly = None
   \<and> map_option App_PayPlanType (Cache_GetApplication (Cache demoRouter) ''app1'') = Some []
   \<and> map_option App_PayPlanType
        (Cache_GetApplication
           (CacheAfter (UpdateApplication demoRouter ''app1'' (Inr planOnly))) ''app1'') = Some []
   \<and> map_option App_Limits (Cache_GetApplication (Cache demoRouter) ''app1'') =
       Some (planLimits freetier)
   \<and> map_option App_Limits
        (Cache_GetApplication
           (CacheAfter (UpdateApplication demoRouter ''app1'' (Inr planOnly))) ''app1'') =
       Some (planLimits testPlan10K)
   \<and> planLimits testPlan10K \<noteq> planLimits freetier
   \<and> \<not> UA_Remove unknownPlan
   \<and> Writer_UpdateApplication (Writer demoRouter) ''app1'' unknownPlan = None
   \<and> \<not> IsZero (UA_FirstDateSurpassed unknownPlan)
   \<and> map_option App_FirstDateSurpassed
        (Cache_GetApplication
           (CacheAfter (UpdateApplication demoRouter ''app1'' (Inr unknownPlan))) ''app1'') =
       map_option App_FirstDateSurpassed (Cache_GetApplication (Cache demoRouter) ''app1'')
   \<and> map_option App_FirstDateSurpassed (Cache_GetApplication (Cache demoRouter) ''app1'') \<noteq>
       Some (UA_FirstDateSurpassed unknownPlan)"
  by (simp add: UpdateApplication_def demo_defs demoApp_def respond_def storeApplication_def
        Let_def IsZero_def planLimits_def testPlan10K_def freetier_def)

section \<open>A plan the cache does not hold\<close>

text \<open>
  Claim C2 says that an update whose plan type names a plan absent from the cache fails
  with an error returned as a value and leaves the cached state unchanged. The handler
  has no such check. At the request \<open>unknownPlan\<close>, which the store accepts, it
  dereferences the nil plan and panics; the name of the request is by then written into
  the cached application, and the date of the request is not. \<^verbatim>\<open>CreateApplication\<close>
  panics in the same way.
\<close>

theorem UpdateApplication_unknown_plan_panics:
  "Cache_GetPayPlan (Cache demoRouter) (UA_PayPlanType unknownPlan) = None
   \<and> Writer_UpdateApplication (Writer demoRouter) ''app1'' unknownPlan = None
   \<and> UpdateApplication demoRouter ''app1'' (Inr unknownPlan) =
       respond Panic (storeApplication demoCache ''app1'' (demoApp\<lparr>App_Name := ''renamed''\<rparr>))
         [Call_UpdateApplication ''app1'' unknownPlan]
   \<and> Cache_GetApplication
        (CacheAfter (UpdateApplication demoRouter ''app1'' (Inr unknownPlan))) ''app1''
      = Some (demoApp\<lparr>App_Name := ''renamed''\<rparr>)
   \<and> demoApp\<lparr>App_Name := ''renamed''\<rparr> \<noteq> demoApp
   \<and> Response (CreateApplication demoRouter (Inr newAppUnknownPlan)) = Panic"
  by (simp add: UpdateApplication_def CreateApplication_def demo_defs Let_def respond_def
        storeApplication_def demoApp_def)

section \<open>Listing by user\<close>

text \<open>
  Claim C3, as amended. For a user whose entry in the secondary index is empty the
  cache returns the empty sequence, and the handler turns the empty sequence into a 404
  response, \<^verbatim>\<open>applications not found\<close> or \<^verbatim>\<open>load balancer not found\<close>. The
  handler answers 200 with the sequence exactly when the sequence is not empty.
\<close>

theorem list_by_user_empty_is_not_found:
  "(applicationsMapByUserID (Cache rt) userID = [] \<longrightarrow>
      Cache_GetApplicationsByUserID (Cache rt) userID = []
      \<and> GetApplicationByUserID rt userID =
          respond (RespondWithError StatusNotFound errApplicationNotFound) (Cache rt) [])
   \<and> (loadBalancersMapByUserID (Cache rt) userID = [] \<longrightarrow>
      Cache_GetLoadBalancersByUserID (Cache rt) userID = []
      \<and> GetLoadBalancerByUserID rt userID =
          respond (RespondWithError StatusNotFound errBalancerNotFound) (Cache rt) [])
   \<and> (Response (GetApplicationByUserID rt userID) =
         (if Cache_GetApplicationsByUserID (Cache rt) userID = []
          then RespondWithError StatusNotFound errApplicationNotFound
          else RespondWithJSON StatusOK
                 (JSON_Applications (Cache_GetApplicationsByUserID (Cache rt) userID))))
   \<and> (Response (GetLoadBalancerByUserID rt userID) =
         (if Cache_GetLoadBalancersByUserID (Cache rt) userID = []
          then RespondWithError StatusNotFound errBalancerNotFound
          else RespondWithJSON StatusOK
                 (JSON_LoadBalancers (Cache_GetLoadBalancersByUserID (Cache rt) userID))))"
  by (simp add: GetApplicationByUserID_def GetLoadBalancerByUserID_def
        Cache_GetApplicationsByUserID_def Cache_GetLoadBalancersByUserID_def
        respond_def List.map_filter_simps Let_def)

theorem list_by_user_empty_is_not_found_witness:
  "applicationsMapByUserID (Cache demoRouter) ''nonexistent-user'' = []
   \<and> Cache_GetApplicationsByUserID (Cache demoRouter) ''nonexistent-user'' = []
   \<and> GetApplicationByUserID demoRouter ''nonexistent-user'' =
       respond (RespondWithError StatusNotFound errApplicationNotFound) demoCache []
   \<and> loadBalancersMapByUserID (Cache demoRouter) ''nonexistent-user'' = []
   \<and> Cache_GetLoadBalancersByUserID (Cache demoRouter) ''nonexistent-user'' = []
   \<and> GetLoadBalancerByUserID demoRouter ''nonexistent-user'' =
       respond (RespondWithError StatusNotFound errBalancerNotFound) demoCache []
   \<and> Response (GetApplicationByUserID demoRouter ''user1'') =
       RespondWithJSON StatusOK (JSON_Applications [demoApp])
   \<and> Response (GetLoadBalancerByUserID demoRouter ''user1'') =
       RespondWithJSON StatusOK (JSON_LoadBalancers [demoLB])"
  using list_by_user_empty_is_not_found [of demoRouter "''nonexistent-user''"]
    list_by_user_empty_is_not_found [of demoRouter "''user1''"]
  by (simp add: Cache_GetApplicationsByUserID_def Cache_GetLoadBalancersByUserID_def demo_defs
        List.map_filter_simps)

text \<open>The claim as it was stated, that listing for a user who owns nothing never gives a
  not-found error, fails at the specification's own example.\<close>

theorem list_by_user_empty_counterexample:
  "Cache_GetApplicationsByUserID (Cache demoRouter) ''nonexistent-user'' = []
   \<and> Response (GetApplicationByUserID demoRouter ''nonexistent-user'') =
       RespondWithError StatusNotFound ''applications not found''
   \<and> Cache_GetLoadBalancersByUserID (Cache demoRouter) ''nonexistent-user'' = []
   \<and> Response (GetLoadBalancerByUserID demoRouter ''nonexistent-user'') =
       RespondWithError StatusNotFound ''load balancer not found''"
  by (simp add: GetApplicationByUserID_def GetLoadBalancerByUserID_def
        Cache_GetApplicationsByUserID_def Cache_GetLoadBalancersByUserID_def demo_defs
        respond_def errApplicationNotFound_def errBalancerNotFound_def List.map_filter_simps)

section \<open>Limits from the pay plan\<close>




section \<open>Removal\<close>

text \<open>
  Claim C5. For an entity the cache holds and a request with the remove flag set that
  the store accepts, whatever else the request carries: the application's status becomes
  \<^verbatim>\<open>AwaitingGracePeriod\<close>, respectively the load balancer's user becomes empty, every
  other field of the entity is as before, the entity stays in its index under its
  identifier, and a following \<^verbatim>\<open>GetApplication\<close>, respectively \<^verbatim>\<open>GetLoadBalancer\<close>,
  answers 200 with it.
\<close>

theorem remove_is_soft:
  "(Cache_GetApplication (Cache rt) appID = Some app \<and> UA_Remove u
      \<and> Writer_RemoveApplication (Writer rt) appID = None
    \<longrightarrow>
      UpdateApplication rt appID (Inr u) =
        respond (RespondWithJSON StatusOK (JSON_Application (app\<lparr>App_Status := AwaitingGracePeriod\<rparr>)))
          (storeApplication (Cache rt) appID (app\<lparr>App_Status := AwaitingGracePeriod\<rparr>))
          [Call_RemoveApplication appID]
      \<and> GetApplication \<lparr>Cache = CacheAfter (UpdateApplication rt appID (Inr u)), Writer = w\<rparr> appID =
          respond (RespondWithJSON StatusOK (JSON_Application (app\<lparr>App_Status := AwaitingGracePeriod\<rparr>)))
            (CacheAfter (UpdateApplication rt appID (Inr u))) [])
   \<and>
   (Cache_GetLoadBalancer (Cache rt) lbID = Some lb \<and> ULB_Remove v
      \<and> Writer_RemoveLoadBalancer (Writer rt) lbID = None
    \<longrightarrow>
      UpdateLoadBalancer rt lbID (Inr v) =
        respond (RespondWithJSON StatusOK (JSON_LoadBalancer (lb\<lparr>LB_UserID := []\<rparr>)))
          (storeLoadBalancer (Cache rt) lbID (lb\<lparr>LB_UserID := []\<rparr>))
          [Call_RemoveLoadBalancer lbID]
      \<and> GetLoadBalancer \<lparr>Cache = CacheAfter (UpdateLoadBalancer rt lbID (Inr v)), Writer = w\<rparr> lbID =
          respond (RespondWithJSON StatusOK (JSON_LoadBalancer (lb\<lparr>LB_UserID := []\<rparr>)))
            (CacheAfter (UpdateLoadBalancer rt lbID (Inr v))) [])"
  by (simp add: UpdateApplication_def UpdateLoadBalancer_def GetApplication_def
        GetLoadBalancer_def Let_def respond_def storeApplication_def storeLoadBalancer_def
        Cache_GetApplication_def Cache_GetLoadBalancer_def)

text \<open>Removal requests that also carry a name: the name is not merged.\<close>

theorem remove_is_soft_witness:
  "Cache_GetApplication (Cache demoRouter) ''app1'' = Some demoApp \<and> UA_Remove removeApp
   \<and> Writer_RemoveApplication (Writer demoRouter) ''app1'' = None
   \<and> UpdateApplication demoRouter ''app1'' (Inr removeApp) =
        respond (RespondWithJSON StatusOK
                   (JSON_Application (demoApp\<lparr>App_Status := ''AWAITING_GRACE_PERIOD''\<rparr>)))
          (storeApplication demoCache ''app1'' (demoApp\<lparr>App_Status := ''AWAITING_GRACE_PERIOD''\<rparr>))
          [Call_RemoveApplication ''app1'']
   \<and> Response (GetApplication
        \<lparr>Cache = CacheAfter (UpdateApplication demoRouter ''app1'' (Inr removeApp)),
         Writer = okWriter\<rparr> ''app1'') =
       RespondWithJSON StatusOK (JSON_Application (demoApp\<lparr>App_Status := ''AWAITING_GRACE_PERIOD''\<rparr>))
   \<and> Cache_GetLoadBalancer (Cache demoRouter) ''lb1'' = Some demoLB \<and> ULB_Remove removeLB
   \<and> Writer_RemoveLoadBalancer (Writer demoRouter) ''lb1'' = None
   \<and> UpdateLoadBalancer demoRouter ''lb1'' (Inr removeLB) =
        respond (RespondWithJSON StatusOK (JSON_LoadBalancer (demoLB\<lparr>LB_UserID := []\<rparr>)))
          (storeLoadBalancer demoCache ''lb1'' (demoLB\<lparr>LB_UserID := []\<rparr>))
          [Call_RemoveLoadBalancer ''lb1'']
   \<and> Response (GetLoadBalancer
        \<lparr>Cache = CacheAfter (UpdateLoadBalancer demoRouter ''lb1'' (Inr removeLB)),
         Writer = okWriter\<rparr> ''lb1'') =
       RespondWithJSON StatusOK (JSON_LoadBalancer (demoLB\<lparr>LB_UserID := []\<rparr>))"
  using remove_is_soft
    [of demoRouter "''app1''" demoApp removeApp okWriter "''lb1''" demoLB removeLB]
  by (simp add: demo_defs AwaitingGracePeriod_def respond_def Let_def UpdateApplication_def
        UpdateLoadBalancer_def GetApplication_def GetLoadBalancer_def storeApplication_def
        storeLoadBalancer_def)

section \<open>The store comes first\<close>

text \<open>
  Claim C6. For an application or a load balancer the cache holds, if the write the
  request leads to (\<^verbatim>\<open>RemoveApplication\<close> or \<^verbatim>\<open>UpdateApplication\<close>,
  \<^verbatim>\<open>RemoveLoadBalancer\<close> or \<^verbatim>\<open>UpdateLoadBalancer\<close> of the writer) returns an error,
  the handler answers 500 with that error and the cache after the request is the cache
  before it.
\<close>

theorem store_error_keeps_cache:
  "(Cache_GetApplication (Cache rt) appID = Some app
      \<and> (if UA_Remove u then Writer_RemoveApplication (Writer rt) appID
          else Writer_UpdateApplication (Writer rt) appID u) = Some err
    \<longrightarrow>
      Response (UpdateApplication rt appID (Inr u)) =
        RespondWithError StatusInternalServerError err
      \<and> CacheAfter (UpdateApplication rt appID (Inr u)) = Cache rt)
   \<and>
   (Cache_GetLoadBalancer (Cache rt) lbID = Some lb
      \<and> (if ULB_Remove v then Writer_RemoveLoadBalancer (Writer rt) lbID
          else Writer_UpdateLoadBalancer (Writer rt) lbID v) = Some err'
    \<longrightarrow>
      Response (UpdateLoadBalancer rt lbID (Inr v)) =
        RespondWithError StatusInternalServerError err'
      \<and> CacheAfter (UpdateLoadBalancer rt lbID (Inr v)) = Cache rt)"
  by (simp add: UpdateApplication_def UpdateLoadBalancer_def respond_def)

text \<open>The four requests against the store that refuses every write.\<close>

theorem store_error_keeps_cache_witness:
  "Cache_GetApplication (Cache downRouter) ''app1'' = Some demoApp
   \<and> Writer_UpdateApplication (Writer downRouter) ''app1'' renameAndPlan = Some ''store down''
   \<and> Response (UpdateApplication downRouter ''app1'' (Inr renameAndPlan)) =
       RespondWithError StatusInternalServerError ''store down''
   \<and> CacheAfter (UpdateApplication downRouter ''app1'' (Inr renameAndPlan)) = demoCache
   \<and> Writer_RemoveApplication (Writer downRouter) ''app1'' = Some ''store down''
   \<and> Response (UpdateApplication downRouter ''app1'' (Inr removeApp)) =
       RespondWithError StatusInternalServerError ''store down''
   \<and> CacheAfter (UpdateApplication downRouter ''app1'' (Inr removeApp)) = demoCache
   \<and> Cache_GetLoadBalancer (Cache downRouter) ''lb1'' = Some demoLB
   \<and> Writer_UpdateLoadBalancer (Writer downRouter) ''lb1'' stickyUpdate = Some ''store down''
   \<and> Response (UpdateLoadBalancer downRouter ''lb1'' (Inr stickyUpdate)) =
       RespondWithError StatusInternalServerError ''store down''
   \<and> CacheAfter (UpdateLoadBalancer downRouter ''lb1'' (Inr stickyUpdate)) = demoCache
   \<and> Writer_RemoveLoadBalancer (Writer downRouter) ''lb1'' = Some ''store down''
   \<and> Response (UpdateLoadBalancer downRouter ''lb1'' (Inr removeLB)) =
       RespondWithError StatusInternalServerError ''store down''
   \<and> CacheAfter (UpdateLoadBalancer downRouter ''lb1'' (Inr removeLB)) = demoCache"
  using store_error_keeps_cache
    [of downRouter "''app1''" demoApp renameAndPlan "''store down''" "''lb1''" demoLB
        stickyUpdate "''store down''"]
    store_error_keeps_cache
    [of downRouter "''app1''" demoApp removeApp "''store down''" "''lb1''" demoLB
        removeLB "''store down''"]
  by (simp add: demo_defs)

section \<open>The no-op update\<close>

text \<open>
  Claim C7. The update whose every field has its zero value, with \<^verbatim>\<open>remove=false\<close>,
  leaves the cache, and so the entity, as it was: after one application and after a
  second one, whatever the store answers the first time (router \<open>rt\<close>) and the second
  time (writer \<open>w\<close>), and whether or not the cache holds the entity.
\<close>

theorem noop_update_twice:
  "CacheAfter (UpdateApplication rt appID (Inr noopUpdateApplication)) = Cache rt
   \<and> CacheAfter
        (UpdateApplication
           \<lparr>Cache = CacheAfter (UpdateApplication rt appID (Inr noopUpdateApplication)),
            Writer = w\<rparr>
           appID (Inr noopUpdateApplication)) = Cache rt
   \<and> Cache_GetApplication
        (CacheAfter
           (UpdateApplication
              \<lparr>Cache = CacheAfter (UpdateApplication rt appID (Inr noopUpdateApplication)),
               Writer = w\<rparr>
              appID (Inr noopUpdateApplication))) appID = Cache_GetApplication (Cache rt) appID
   \<and> CacheAfter (UpdateLoadBalancer rt lbID (Inr noopUpdateLoadBalancer)) = Cache rt
   \<and> CacheAfter
        (UpdateLoadBalancer
           \<lparr>Cache = CacheAfter (UpdateLoadBalancer rt lbID (Inr noopUpdateLoadBalancer)),
            Writer = w'\<rparr>
           lbID (Inr noopUpdateLoadBalancer)) = Cache rt
   \<and> Cache_GetLoadBalancer
        (CacheAfter
           (UpdateLoadBalancer
              \<lparr>Cache = CacheAfter (UpdateLoadBalancer rt lbID (Inr noopUpdateLoadBalancer)),
               Writer = w'\<rparr>
              lbID (Inr noopUpdateLoadBalancer))) lbID = Cache_GetLoadBalancer (Cache rt) lbID"
  by (simp add: noop_application noop_load_balancer)

section \<open>Creating a load balancer\<close>

text \<open>
  Claim C8. When the store returns the created load balancer, the object sent to the
  caller has, after the applications the returned record already lists (none when that
  list is empty), the result of \<^verbatim>\<open>GetApplication\<close> for every identifier of
  \<^verbatim>\<open>ApplicationIDs\<close>, in the order of that list, and its \<^verbatim>\<open>ApplicationIDs\<close> is
  empty. An identifier the cache does not hold gives a nil entry. The cache is not
  changed.
\<close>

theorem CreateLoadBalancer_resolves_members:
  "Writer_WriteLoadBalancer (Writer rt) lb = Inr fullLB \<Longrightarrow>
   CreateLoadBalancer rt (Inr lb) =
     respond
       (RespondWithJSON StatusOK
          (JSON_LoadBalancer
             (fullLB\<lparr>LB_Applications :=
                       LB_Applications fullLB
                       @ map (Cache_GetApplication (Cache rt)) (LB_ApplicationIDs fullLB),
                     LB_ApplicationIDs := []\<rparr>)))
       (Cache rt) [Call_WriteLoadBalancer lb]"
  by (simp add: CreateLoadBalancer_def appendApplications_eq)

theorem CreateLoadBalancer_resolves_members_witness:
  "Writer_WriteLoadBalancer (Writer demoRouter) demoLB = Inr demoLB
   \<and> LB_Applications demoLB = []
   \<and> LB_ApplicationIDs demoLB = [''app1'', ''ghost'', ''app1'']
   \<and> CreateLoadBalancer demoRouter (Inr demoLB) =
       respond
         (RespondWithJSON StatusOK
            (JSON_LoadBalancer
               (demoLB\<lparr>LB_Applications := [Some demoApp, None, Some demoApp],
                       LB_ApplicationIDs := []\<rparr>)))
         demoCache [Call_WriteLoadBalancer demoLB]"
  using CreateLoadBalancer_resolves_members [of demoRouter demoLB demoLB]
  by (simp add: demo_defs demoLB_def)

section \<open>The bulk update of the first date surpassed\<close>

text \<open>
  Claim C9. A request with an empty list of identifiers is answered 400 with no call
  on the writer and no change of the cache. A request that lists an identifier the
  cache does not hold is answered 404, naming an identifier of the list, with no call
  on the writer and no change of the cache. When the writer returns an error the cache
  is not changed. When the list is not empty, the cache holds every listed application
  and the writer accepts, the writer was called once, every listed application has the
  date of the request and is otherwise as before, every other application is as before,
  and the response is 200 with the listed applications as they then are.
\<close>

theorem UpdateFirstDateSurpassed_all_or_nothing:
  "(UFDS_ApplicationIDs u = [] \<longrightarrow>
      UpdateFirstDateSurpassed rt (Inr u) =
        respond (RespondWithError StatusBadRequest ''no application IDs on input'') (Cache rt) [])
   \<and>
   ((\<exists>i \<in> set (UFDS_ApplicationIDs u). Cache_GetApplication (Cache rt) i = None) \<longrightarrow>
      (\<exists>i \<in> set (UFDS_ApplicationIDs u).
         UpdateFirstDateSurpassed rt (Inr u) =
           respond (RespondWithError StatusNotFound (i @ '' not found'')) (Cache rt) []))
   \<and>
   (Writer_UpdateFirstDateSurpassed (Writer rt) u = Some err \<longrightarrow>
      CacheAfter (UpdateFirstDateSurpassed rt (Inr u)) = Cache rt)
   \<and>
   (UFDS_ApplicationIDs u \<noteq> []
      \<and> (\<forall>i \<in> set (UFDS_ApplicationIDs u). Cache_GetApplication (Cache rt) i \<noteq> None)
      \<and> Writer_UpdateFirstDateSurpassed (Writer rt) u = None
    \<longrightarrow>
      StoreCalls (UpdateFirstDateSurpassed rt (Inr u)) = [Call_UpdateFirstDateSurpassed u]
      \<and> (\<forall>i. Cache_GetApplication (CacheAfter (UpdateFirstDateSurpassed rt (Inr u))) i =
            (if i \<in> set (UFDS_ApplicationIDs u)
             then map_option (\<lambda>a. a\<lparr>App_FirstDateSurpassed := UFDS_FirstDateSurpassed u\<rparr>)
                    (Cache_GetApplication (Cache rt) i)
             else Cache_GetApplication (Cache rt) i))
      \<and> Response (UpdateFirstDateSurpassed rt (Inr u)) =
          RespondWithJSON StatusOK
            (JSON_Applications
               (List.map_filter
                  (\<lambda>i. map_option (\<lambda>a. a\<lparr>App_FirstDateSurpassed := UFDS_FirstDateSurpassed u\<rparr>)
                         (Cache_GetApplication (Cache rt) i))
                  (UFDS_ApplicationIDs u))))"
proof (intro conjI impI)
  assume "UFDS_ApplicationIDs u = []"
  then show "UpdateFirstDateSurpassed rt (Inr u) =
        respond (RespondWithError StatusBadRequest ''no application IDs on input'') (Cache rt) []"
    by (simp add: UpdateFirstDateSurpassed_def)
next
  assume m: "\<exists>i \<in> set (UFDS_ApplicationIDs u). Cache_GetApplication (Cache rt) i = None"
  then have ne: "UFDS_ApplicationIDs u \<noteq> []" by auto
  from lookupApplications_missing [OF m, of "[]"] obtain i where
    "i \<in> set (UFDS_ApplicationIDs u)"
    "lookupApplications (Cache rt) (UFDS_ApplicationIDs u) [] = Inl i"
    by blast
  with ne show "\<exists>i \<in> set (UFDS_ApplicationIDs u).
         UpdateFirstDateSurpassed rt (Inr u) =
           respond (RespondWithError StatusNotFound (i @ '' not found'')) (Cache rt) []"
    by (auto simp: UpdateFirstDateSurpassed_def)
next
  assume "Writer_UpdateFirstDateSurpassed (Writer rt) u = Some err"
  then show "CacheAfter (UpdateFirstDateSurpassed rt (Inr u)) = Cache rt"
    by (simp add: UpdateFirstDateSurpassed_def respond_def split: sum.splits)
next
  assume h: "UFDS_ApplicationIDs u \<noteq> []
      \<and> (\<forall>i \<in> set (UFDS_ApplicationIDs u). Cache_GetApplication (Cache rt) i \<noteq> None)
      \<and> Writer_UpdateFirstDateSurpassed (Writer rt) u = None"
  then have l: "lookupApplications (Cache rt) (UFDS_ApplicationIDs u) [] = Inr (UFDS_ApplicationIDs u)"
    using lookupApplications_found [of "UFDS_ApplicationIDs u" "Cache rt" "[]"] by simp
  have eq: "UpdateFirstDateSurpassed rt (Inr u) =
      respond
        (RespondWithJSON StatusOK
           (JSON_Applications
              (List.map_filter
                 (Cache_GetApplication
                    (setFirstDateSurpassed (UFDS_FirstDateSurpassed u) (UFDS_ApplicationIDs u) (Cache rt)))
                 (UFDS_ApplicationIDs u))))
        (setFirstDateSurpassed (UFDS_FirstDateSurpassed u) (UFDS_ApplicationIDs u) (Cache rt))
        [Call_UpdateFirstDateSurpassed u]"
    using h l by (simp add: UpdateFirstDateSurpassed_def Let_def)
  have mf: "List.map_filter
                 (Cache_GetApplication
                    (setFirstDateSurpassed (UFDS_FirstDateSurpassed u) (UFDS_ApplicationIDs u) (Cache rt)))
                 (UFDS_ApplicationIDs u) =
            List.map_filter
                  (\<lambda>i. map_option (\<lambda>a. a\<lparr>App_FirstDateSurpassed := UFDS_FirstDateSurpassed u\<rparr>)
                         (Cache_GetApplication (Cache rt) i))
                  (UFDS_ApplicationIDs u)"
    unfolding List.map_filter_def
    by (intro arg_cong2 [where f = map] filter_cong map_cong refl)
       (simp_all add: setFirstDateSurpassed_eq Cache_GetApplication_def)
  show "StoreCalls (UpdateFirstDateSurpassed rt (Inr u)) = [Call_UpdateFirstDateSurpassed u]"
    by (simp add: eq respond_def)
  show "\<forall>i. Cache_GetApplication (CacheAfter (UpdateFirstDateSurpassed rt (Inr u))) i =
            (if i \<in> set (UFDS_ApplicationIDs u)
             then map_option (\<lambda>a. a\<lparr>App_FirstDateSurpassed := UFDS_FirstDateSurpassed u\<rparr>)
                    (Cache_GetApplication (Cache rt) i)
             else Cache_GetApplication (Cache rt) i)"
    by (simp add: eq respond_def setFirstDateSurpassed_eq Cache_GetApplication_def)
  show "Response (UpdateFirstDateSurpassed rt (Inr u)) =
          RespondWithJSON StatusOK
            (JSON_Applications
               (List.map_filter
                  (\<lambda>i. map_option (\<lambda>a. a\<lparr>App_FirstDateSurpassed := UFDS_FirstDateSurpassed u\<rparr>)
                         (Cache_GetApplication (Cache rt) i))
                  (UFDS_ApplicationIDs u)))"
    by (simp add: eq respond_def mf)
qed

text \<open>An empty list; a list with an identifier the mirror does not hold; the store that
  refuses; and \<^verbatim>\<open>app1\<close> listed twice with the store that accepts.\<close>

theorem UpdateFirstDateSurpassed_all_or_nothing_witness:
  "UFDS_ApplicationIDs surpassedNobody = []
   \<and> UpdateFirstDateSurpassed demoRouter (Inr surpassedNobody) =
       respond (RespondWithError StatusBadRequest ''no application IDs on input'') demoCache []
   \<and> ''ghost'' \<in> set (UFDS_ApplicationIDs surpassedGhost)
   \<and> Cache_GetApplication (Cache demoRouter) ''ghost'' = None
   \<and> UpdateFirstDateSurpassed demoRouter (Inr surpassedGhost) =
       respond (RespondWithError StatusNotFound ''ghost not found'') demoCache []
   \<and> Writer_UpdateFirstDateSurpassed (Writer downRouter) surpassedToday = Some ''store down''
   \<and> CacheAfter (UpdateFirstDateSurpassed downRouter (Inr surpassedToday)) = demoCache
   \<and> UFDS_ApplicationIDs surpassedToday = [''app1'', ''app1'']
   \<and> Cache_GetApplication (Cache demoRouter) ''app1'' = Some demoApp
   \<and> Writer_UpdateFirstDateSurpassed (Writer demoRouter) surpassedToday = None
   \<and> StoreCalls (UpdateFirstDateSurpassed demoRouter (Inr surpassedToday)) =
       [Call_UpdateFirstDateSurpassed surpassedToday]
   \<and> Cache_GetApplication
        (CacheAfter (UpdateFirstDateSurpassed demoRouter (Inr surpassedToday))) ''app1'' =
       Some (demoApp\<lparr>App_FirstDateSurpassed := 42\<rparr>)
   \<and> Response (UpdateFirstDateSurpassed demoRouter (Inr surpassedToday)) =
       RespondWithJSON StatusOK
         (JSON_Applications
            [demoApp\<lparr>App_FirstDateSurpassed := 42\<rparr>, demoApp\<lparr>App_FirstDateSurpassed := 42\<rparr>])"
proof -
  have nobody: "UFDS_ApplicationIDs surpassedNobody = []"
    by (simp add: surpassedNobody_def)
  have ghost: "\<exists>i \<in> set (UFDS_ApplicationIDs surpassedGhost).
      Cache_GetApplication (Cache demoRouter) i = None"
    by (simp add: demo_defs)
  have down: "Writer_UpdateFirstDateSurpassed (Writer downRouter) surpassedToday = Some ''store down''"
    by (simp add: demo_defs)
  have today: "UFDS_ApplicationIDs surpassedToday \<noteq> []
      \<and> (\<forall>i \<in> set (UFDS_ApplicationIDs surpassedToday).
            Cache_GetApplication (Cache demoRouter) i \<noteq> None)
      \<and> Writer_UpdateFirstDateSurpassed (Writer demoRouter) surpassedToday = None"
    by (simp add: demo_defs)
  have r1: "UpdateFirstDateSurpassed demoRouter (Inr surpassedNobody) =
      respond (RespondWithError StatusBadRequest ''no application IDs on input'')
        (Cache demoRouter) []"
    using nobody UpdateFirstDateSurpassed_all_or_nothing [of surpassedNobody demoRouter] by blast
  have r2: "\<exists>i \<in> set (UFDS_ApplicationIDs surpassedGhost).
      UpdateFirstDateSurpassed demoRouter (Inr surpassedGhost) =
        respond (RespondWithError StatusNotFound (i @ '' not found'')) (Cache demoRouter) []"
    using ghost UpdateFirstDateSurpassed_all_or_nothing [of surpassedGhost demoRouter] by blast
  have r3: "CacheAfter (UpdateFirstDateSurpassed downRouter (Inr surpassedToday)) = Cache downRouter"
    using down UpdateFirstDateSurpassed_all_or_nothing [of surpassedToday downRouter "''store down''"]
    by blast
  have r4: "StoreCalls (UpdateFirstDateSurpassed demoRouter (Inr surpassedToday)) =
        [Call_UpdateFirstDateSurpassed surpassedToday]
      \<and> Cache_GetApplication
          (CacheAfter (UpdateFirstDateSurpassed demoRouter (Inr surpassedToday))) ''app1'' =
         (if ''app1'' \<in> set (UFDS_ApplicationIDs surpassedToday)
          then map_option (\<lambda>a. a\<lparr>App_FirstDateSurpassed := UFDS_FirstDateSurpassed surpassedToday\<rparr>)
                 (Cache_GetApplication (Cache demoRouter) ''app1'')
          else Cache_GetApplication (Cache demoRouter) ''app1'')
      \<and> Response (UpdateFirstDateSurpassed demoRouter (Inr surpassedToday)) =
          RespondWithJSON StatusOK
            (JSON_Applications
               (List.map_filter
                  (\<lambda>i. map_option
                         (\<lambda>a. a\<lparr>App_FirstDateSurpassed := UFDS_FirstDateSurpassed surpassedToday\<rparr>)
                         (Cache_GetApplication (Cache demoRouter) i))
                  (UFDS_ApplicationIDs surpassedToday)))"
    using today UpdateFirstDateSurpassed_all_or_nothing [of surpassedToday demoRouter] by blast
  have g: "UpdateFirstDateSurpassed demoRouter (Inr surpassedGhost) =
       respond (RespondWithError StatusNotFound ''ghost not found'') demoCache []"
    using r2 by (simp add: UpdateFirstDateSurpassed_def demo_defs respond_def)
  show ?thesis
    using r1 r3 r4 g
    by (simp add: demo_defs List.map_filter_simps)
qed

section \<open>Looking up a pay plan\<close>



end
